theory Spec2Isabelle
  imports Main
begin

section \<open>Configuration file parameters (pkg/config/parameters.go)\<close>

text \<open>
  Go values are modelled as follows: a struct is a record, a Go \<open>string\<close> is a
  \<open>string\<close> (a list of bytes), a pointer that the code compares with \<open>nil\<close> is an
  \<open>option\<close>, and a returned \<open>error\<close> is an \<open>option\<close> of an error value, \<open>None\<close>
  standing for \<open>nil\<close>. The text of an error message is kept in the name of the error
  constructor; no claim depends on it.
\<close>

subsection \<open>Gateway parameters\<close>

record NamespacedName =
  Name :: string
  Namespace :: string

record GatewayParameters =
  ControllerName :: string
  GatewayRef :: "NamespacedName option"

datatype gateway_error =
  ExactlyOneOfControllerNameOrGatewayRef
  \<comment> \<open>"invalid Gateway parameters specified: exactly one of controller name or
      gateway ref must be provided"\<close>

text \<open>
  \<open>func (g *GatewayParameters) Validate() error\<close>: the receiver is a pointer and is
  compared with \<open>nil\<close> first, so it is an \<open>option\<close> here.
\<close>

definition GatewayParameters_Validate :: "GatewayParameters option \<Rightarrow> gateway_error option" where
  "GatewayParameters_Validate g =
     (case g of
        None \<Rightarrow> None
      | Some p \<Rightarrow>
          if length (ControllerName p) = 0 \<and> GatewayRef p = None
            then Some ExactlyOneOfControllerNameOrGatewayRef
          else if length (ControllerName p) > 0 \<and> GatewayRef p \<noteq> None
            then Some ExactlyOneOfControllerNameOrGatewayRef
          else None)"

subsection \<open>Metrics server parameters\<close>

record MetricsServerParameters =
  Address :: string
  Port :: int
  ServerCert :: string
  ServerKey :: string
  CABundle :: string

datatype metrics_error =
  MustSupplyCertAndKeyOrNone
  \<comment> \<open>"you must supply at least server-certificate-path and server-key-path or none
      of them"\<close>
| MustSupplyCertAndKeyWithCA
  \<comment> \<open>"you must supply also server-certificate-path and server-key-path if setting
      ca-certificate-path"\<close>

text \<open>
  \<open>func (p *MetricsServerParameters) Validate() error\<close>. The receiver is dereferenced
  without a \<open>nil\<close> check; its callers pass the address of a struct field, so the
  model takes the struct itself.
\<close>

definition MetricsServerParameters_Validate :: "MetricsServerParameters \<Rightarrow> metrics_error option" where
  "MetricsServerParameters_Validate p =
     (if (ServerCert p \<noteq> []) \<noteq> (ServerKey p \<noteq> []) then Some MustSupplyCertAndKeyOrNone
      else if CABundle p \<noteq> [] \<and> ServerCert p = [] then Some MustSupplyCertAndKeyWithCA
      else None)"

definition HasTLS :: "MetricsServerParameters \<Rightarrow> bool" where
  "HasTLS p = (ServerCert p \<noteq> [] \<and> ServerKey p \<noteq> [])"

subsection \<open>Timeout parameters\<close>

text \<open>
  \<open>TimeoutParameters.Validate\<close> calls \<open>time.ParseDuration\<close> of the Go standard library
  (\<open>src/time/format.go\<close>; the repository builds with go1.19). That function is not
  repository code; it is transcribed here, with its helpers \<open>leadingInt\<close>,
  \<open>leadingFraction\<close> and \<open>unitMap\<close>, so that the validator can be evaluated.
  Values of type \<open>uint64\<close> are natural numbers, with \<open>mod 2 ^ 64\<close> written at every
  operation that can exceed the type. The one floating-point expression of the function,
  \<open>uint64(float64(f) * (float64(unit) / scale))\<close>, is not computed: it is the parameter
  \<open>fracNanos f unit k\<close>, where \<open>k\<close> counts the multiplications of \<open>scale\<close> by 10.
\<close>

datatype parse_error =
  InvalidDuration \<comment> \<open>"time: invalid duration " + quote(orig)\<close>
| MissingUnit \<comment> \<open>"time: missing unit in duration " + quote(orig)\<close>
| UnknownUnit string \<comment> \<open>"time: unknown unit " + quote(u) + " in duration " + quote(orig)\<close>

definition isDigit :: "char \<Rightarrow> bool" where
  \<comment> \<open>\<open>'0' <= c && c <= '9'\<close>, on the byte value\<close>
  "isDigit c = (48 \<le> (of_char c :: nat) \<and> (of_char c :: nat) \<le> 57)"

text \<open>
  \<open>leadingInt\<close> consumes the leading \<open>[0-9]*\<close> of \<open>s\<close>; \<open>None\<close> is \<open>errLeadingInt\<close>
  (overflow).
\<close>

fun leadingInt_loop :: "nat \<Rightarrow> string \<Rightarrow> (nat \<times> string) option" where
  "leadingInt_loop x [] = Some (x, [])"
| "leadingInt_loop x (c # s) =
     (if \<not> isDigit c then Some (x, c # s)
      else if x > 2 ^ 63 div 10 then None
      else let x' = (x * 10 + of_char c - 48) mod 2 ^ 64
           in if x' > 2 ^ 63 then None else leadingInt_loop x' s)"

definition leadingInt :: "string \<Rightarrow> (nat \<times> string) option" where
  "leadingInt s = leadingInt_loop 0 s"

text \<open>
  \<open>leadingFraction\<close> consumes the leading \<open>[0-9]*\<close> of \<open>s\<close> as the digits after a
  decimal point. It never fails: once the value would overflow, the remaining digits are
  skipped. The result is the value, the number of digits kept, and the rest.
\<close>

fun leadingFraction_loop :: "nat \<Rightarrow> nat \<Rightarrow> bool \<Rightarrow> string \<Rightarrow> nat \<times> nat \<times> string" where
  "leadingFraction_loop x k overflow [] = (x, k, [])"
| "leadingFraction_loop x k overflow (c # s) =
     (if \<not> isDigit c then (x, k, c # s)
      else if overflow then leadingFraction_loop x k overflow s
      else if x > (2 ^ 63 - 1) div 10 then leadingFraction_loop x k True s
      else let y = (x * 10 + of_char c - 48) mod 2 ^ 64
           in if y > 2 ^ 63 then leadingFraction_loop x k True s
              else leadingFraction_loop y (Suc k) overflow s)"

definition leadingFraction :: "string \<Rightarrow> nat \<times> nat \<times> string" where
  "leadingFraction s = leadingFraction_loop 0 0 False s"

definition unitMap :: "string \<Rightarrow> nat option" where
  \<comment> \<open>the third and fourth keys are the UTF-8 bytes of U+00B5 and U+03BC followed by "s"\<close>
  "unitMap u =
     (if u = ''ns'' then Some 1
      else if u = ''us'' then Some 1000
      else if u = [CHR 0xC2, CHR 0xB5, CHR ''s''] then Some 1000
      else if u = [CHR 0xCE, CHR 0xBC, CHR ''s''] then Some 1000
      else if u = ''ms'' then Some 1000000
      else if u = ''s'' then Some 1000000000
      else if u = ''m'' then Some 60000000000
      else if u = ''h'' then Some 3600000000000
      else None)"

definition unitChar :: "char \<Rightarrow> bool" where
  \<comment> \<open>the unit scan stops at \<open>c == '.' || '0' <= c && c <= '9'\<close>\<close>
  "unitChar c = (\<not> (c = CHR ''.'' \<or> isDigit c))"

text \<open>
  One pass through the body of the loop \<open>for s != ""\<close> of \<open>ParseDuration\<close>, up to the
  addition to \<open>d\<close>: it reads one \<open>[0-9]*(\.[0-9]*)?[a-z]+\<close> from a non-empty \<open>s\<close> and
  returns its value in nanoseconds and the rest of the string.
\<close>

definition parseComponent ::
    "(nat \<Rightarrow> nat \<Rightarrow> nat \<Rightarrow> nat) \<Rightarrow> string \<Rightarrow> parse_error + (nat \<times> string)" where
  "parseComponent fracNanos s =
     (if \<not> (hd s = CHR ''.'' \<or> isDigit (hd s)) then Inl InvalidDuration
      else case leadingInt s of
        None \<Rightarrow> Inl InvalidDuration
      | Some (v, s1) \<Rightarrow>
          let pre = (length s \<noteq> length s1);
              frac = (if s1 \<noteq> [] \<and> hd s1 = CHR ''.''
                      then (case leadingFraction (tl s1) of
                              (f, k, s2) \<Rightarrow> (f, k, length (tl s1) \<noteq> length s2, s2))
                      else (0, 0, False, s1))
          in case frac of (f, k, post, s2) \<Rightarrow>
            if \<not> pre \<and> \<not> post then Inl InvalidDuration
            else let u = takeWhile unitChar s2; s3 = dropWhile unitChar s2
              in if length u = 0 then Inl MissingUnit
                 else case unitMap u of
                   None \<Rightarrow> Inl (UnknownUnit u)
                 | Some unit \<Rightarrow>
                     if v > 2 ^ 63 div unit then Inl InvalidDuration
                     else let v1 = (v * unit) mod 2 ^ 64;
                              v2 = (if f > 0 then (v1 + fracNanos f unit k) mod 2 ^ 64 else v1)
                          in if f > 0 \<and> v2 > 2 ^ 63 then Inl InvalidDuration
                             else Inr (v2, s3))"

text \<open>Every pass consumes at least the unit, which is what makes the loop end.\<close>

lemma leadingInt_loop_length:
  "leadingInt_loop x s = Some (v, r) \<Longrightarrow> length r \<le> length s"
  by (induction x s rule: leadingInt_loop.induct) (auto simp: Let_def split: if_splits)

lemma leadingFraction_loop_length:
  "leadingFraction_loop x k ov s = (f, k', r) \<Longrightarrow> length r \<le> length s"
  by (induction x k ov s rule: leadingFraction_loop.induct) (auto simp: Let_def split: if_splits)

lemma dropWhile_shorter:
  "takeWhile P s \<noteq> [] \<Longrightarrow> length (dropWhile P s) < length s"
  by (cases s) (auto simp: length_dropWhile_le le_imp_less_Suc split: if_splits)

lemma parseComponent_length:
  assumes "parseComponent fr s = Inr (v, r)"
  shows "length r < length s"
proof -
  obtain v0 s1 where li: "leadingInt s = Some (v0, s1)"
    using assms by (auto simp: parseComponent_def split: if_splits option.splits)
  have l1: "length s1 \<le> length s"
    using li leadingInt_loop_length by (simp add: leadingInt_def)
  obtain f k post s2 where fr:
    "(if s1 \<noteq> [] \<and> hd s1 = CHR ''.''
      then (case leadingFraction (tl s1) of
              (f, k, s2) \<Rightarrow> (f, k, length (tl s1) \<noteq> length s2, s2))
      else (0, 0, False, s1)) = (f, k, post, s2)"
    using prod_cases4 by blast
  have l2: "length s2 \<le> length s1"
    using fr leadingFraction_loop_length [of 0 0 False "tl s1"]
    by (auto simp: leadingFraction_def split: if_splits prod.splits)
  have "takeWhile unitChar s2 \<noteq> [] \<and> r = dropWhile unitChar s2"
    using assms li fr
    by (auto simp: parseComponent_def Let_def split: if_splits option.splits)
  then have "length r < length s2"
    using dropWhile_shorter by blast
  with l1 l2 show ?thesis by linarith
qed

text \<open>The loop \<open>for s != ""\<close>, accumulating \<open>d\<close>.\<close>

function ParseDuration_loop ::
    "(nat \<Rightarrow> nat \<Rightarrow> nat \<Rightarrow> nat) \<Rightarrow> nat \<Rightarrow> string \<Rightarrow> parse_error + nat" where
  "ParseDuration_loop fracNanos d s =
     (if s = [] then Inr d
      else case parseComponent fracNanos s of
        Inl e \<Rightarrow> Inl e
      | Inr (v, s') \<Rightarrow>
          let d' = (d + v) mod 2 ^ 64
          in if d' > 2 ^ 63 then Inl InvalidDuration
             else ParseDuration_loop fracNanos d' s')"
  by pat_completeness auto
termination
  by (relation "measure (\<lambda>(fr, d, s). length s)") (auto dest: parseComponent_length)

declare ParseDuration_loop.simps [simp del]

text \<open>
  \<open>func ParseDuration(s string) (Duration, error)\<close>. A \<open>Duration\<close> is an \<open>int64\<close> count
  of nanoseconds; the checks against \<open>1<<63\<close> keep the result in its range.
\<close>

definition ParseDuration ::
    "(nat \<Rightarrow> nat \<Rightarrow> nat \<Rightarrow> nat) \<Rightarrow> string \<Rightarrow> parse_error + int" where
  "ParseDuration fracNanos orig =
     (let signed = (orig \<noteq> [] \<and> (hd orig = CHR ''-'' \<or> hd orig = CHR ''+''));
          neg = (signed \<and> hd orig = CHR ''-'');
          s = (if signed then tl orig else orig)
      in if s = ''0'' then Inr 0
         else if s = [] then Inl InvalidDuration
         else case ParseDuration_loop fracNanos 0 s of
           Inl e \<Rightarrow> Inl e
         | Inr d \<Rightarrow>
             if neg then Inr (- int d)
             else if d > 2 ^ 63 - 1 then Inl InvalidDuration
             else Inr (int d))"

definition parses :: "(nat \<Rightarrow> nat \<Rightarrow> nat \<Rightarrow> nat) \<Rightarrow> string \<Rightarrow> bool" where
  \<comment> \<open>\<open>time.ParseDuration\<close> returns a \<open>nil\<close> error\<close>
  "parses fracNanos s = (case ParseDuration fracNanos s of Inl _ \<Rightarrow> False | Inr _ \<Rightarrow> True)"

definition truncFrac :: "nat \<Rightarrow> nat \<Rightarrow> nat \<Rightarrow> nat" where
  \<comment> \<open>the value of the floating-point expression where it is computed without rounding\<close>
  "truncFrac f unit k = (f * unit) div 10 ^ k"

record TimeoutParameters =
  RequestTimeout :: string
  ConnectionIdleTimeout :: string
  StreamIdleTimeout :: string
  MaxConnectionDuration :: string
  DelayedCloseTimeout :: string
  ConnectionShutdownGracePeriod :: string
  ConnectTimeout :: string

datatype timeout_error =
  Errorf string string parse_error
  \<comment> \<open>\<open>fmt.Errorf("<field> %q: %w", value, err)\<close>: the field's words, the value, the
      wrapped error\<close>

text \<open>The closure \<open>v\<close> of \<open>TimeoutParameters.Validate\<close>.\<close>

definition Validate_v :: "(nat \<Rightarrow> nat \<Rightarrow> nat \<Rightarrow> nat) \<Rightarrow> string \<Rightarrow> parse_error option" where
  "Validate_v fracNanos str =
     (if str = [] \<or> str = ''infinity'' \<or> str = ''infinite'' then None
      else case ParseDuration fracNanos str of Inl err \<Rightarrow> Some err | Inr _ \<Rightarrow> None)"

text \<open>\<open>func (t TimeoutParameters) Validate() error\<close>: the first failing field is reported.\<close>

definition TimeoutParameters_Validate ::
    "(nat \<Rightarrow> nat \<Rightarrow> nat \<Rightarrow> nat) \<Rightarrow> TimeoutParameters \<Rightarrow> timeout_error option" where
  "TimeoutParameters_Validate fracNanos t =
     (case Validate_v fracNanos (RequestTimeout t) of
        Some err \<Rightarrow> Some (Errorf ''invalid request timeout'' (RequestTimeout t) err)
      | None \<Rightarrow>
     (case Validate_v fracNanos (ConnectionIdleTimeout t) of
        Some err \<Rightarrow> Some (Errorf ''connection idle timeout'' (ConnectionIdleTimeout t) err)
      | None \<Rightarrow>
     (case Validate_v fracNanos (StreamIdleTimeout t) of
        Some err \<Rightarrow> Some (Errorf ''stream idle timeout'' (StreamIdleTimeout t) err)
      | None \<Rightarrow>
     (case Validate_v fracNanos (MaxConnectionDuration t) of
        Some err \<Rightarrow> Some (Errorf ''max connection duration'' (MaxConnectionDuration t) err)
      | None \<Rightarrow>
     (case Validate_v fracNanos (DelayedCloseTimeout t) of
        Some err \<Rightarrow> Some (Errorf ''delayed close timeout'' (DelayedCloseTimeout t) err)
      | None \<Rightarrow>
     (case Validate_v fracNanos (ConnectionShutdownGracePeriod t) of
        Some err \<Rightarrow>
          Some (Errorf ''connection shutdown grace period'' (ConnectionShutdownGracePeriod t) err)
      | None \<Rightarrow>
     (if ConnectTimeout t \<noteq> [] then
        (case ParseDuration fracNanos (ConnectTimeout t) of
           Inl err \<Rightarrow> Some (Errorf ''connect timeout'' (ConnectTimeout t) err)
         | Inr _ \<Rightarrow> None)
      else None)))))))"

section \<open>Snapshot cache\<close>

text \<open>
  Modelled from the spec: the resource families of sections 2 and 6 (listener-set,
  route-table-set, cluster-set, endpoint-assignment-set, secret-set). The snapshot cache
  and the types it stores are not among the repository's source files, so this section
  follows the words of the specification.
\<close>

datatype family = ListenerSet | RouteTableSet | ClusterSet | EndpointAssignmentSet | SecretSet

definition families :: "family list" where
  "families = [ListenerSet, RouteTableSet, ClusterSet, EndpointAssignmentSet, SecretSet]"

text \<open>
  Modelled from the spec: a wire-format resource (section 4.2), as its identifier and its
  bytes; two resources are byte-identical when they are equal.
\<close>

type_synonym resource = "string \<times> string"

text \<open>
  Modelled from the spec: the Resource Snapshot that \<open>Translate\<close> returns (sections 3
  and 4.2), a tuple of ordered resource sets, one per family, carrying no version yet.
\<close>

type_synonym ResourceSnapshot = "family \<Rightarrow> resource list"

text \<open>
  Modelled from the spec: the state of the Snapshot Cache (sections 2 and 4.3): the latest
  published content of each family, the version each family is tagged with, and the single
  shared monotonic counter the versions are drawn from. The cache keeps no history.
\<close>

record SnapshotCache =
  published :: "family \<Rightarrow> resource list"
  versions :: "family \<Rightarrow> nat"
  counter :: nat

text \<open>
  Modelled from the spec: the cache before the first publish. The specification does not
  describe it; every family is taken to be empty, at version 0.
\<close>

definition empty_cache :: SnapshotCache where
  "empty_cache = \<lparr>published = (\<lambda>f. []), versions = (\<lambda>f. 0), counter = 0\<rparr>"

text \<open>
  Modelled from the spec: the step of \<open>Publish\<close> for one family (section 4.3): the
  content-equality check against the published content of that family; a byte-identical
  family keeps its version, a changed one is replaced and tagged with the publish's
  version number \<open>n\<close>, which the counter then holds.
\<close>

definition Publish_family ::
    "ResourceSnapshot \<Rightarrow> nat \<Rightarrow> family \<Rightarrow> SnapshotCache \<Rightarrow> SnapshotCache" where
  "Publish_family s n f c =
     (if s f = published c f then c
      else c\<lparr>published := (published c)(f := s f),
             versions := (versions c)(f := n),
             counter := n\<rparr>)"

text \<open>
  Modelled from the spec: \<open>Publish(ResourceSnapshot)\<close> (section 4.3). The version of a
  snapshot is assigned at publish time (section 3): it is the next value of the shared
  counter, and each family is then checked independently, in turn. The specification does
  not say whether two families changed by one publish get the same number; here they do.
\<close>

definition Publish :: "SnapshotCache \<Rightarrow> ResourceSnapshot \<Rightarrow> SnapshotCache" where
  "Publish c s = fold (Publish_family s (Suc (counter c))) families c"

text \<open>
  Modelled from the spec: the version numbers successively assigned to family \<open>f\<close> while
  the snapshots \<open>ss\<close> are published one after the other, starting from cache \<open>c\<close>: one
  number for each publish that changes the content of \<open>f\<close>.
\<close>

fun assigned :: "family \<Rightarrow> SnapshotCache \<Rightarrow> ResourceSnapshot list \<Rightarrow> nat list" where
  "assigned f c [] = []"
| "assigned f c (s # ss) =
     (if s f \<noteq> published c f then [versions (Publish c s) f] else [])
     @ assigned f (Publish c s) ss"

section \<open>Properties of the configuration validators\<close>

text \<open>
  C8. \<open>GatewayParameters.Validate\<close> returns \<open>nil\<close> exactly when the receiver is \<open>nil\<close>
  or exactly one of the two fields is set (\<open>ControllerName\<close> non-empty, or \<open>GatewayRef\<close>
  non-nil): with both unset, or with both set, it returns an error, and in every other
  case it returns \<open>nil\<close>.
\<close>

theorem GatewayParameters_Validate_nil_iff:
  "(GatewayParameters_Validate g = None) =
     (case g of
        None \<Rightarrow> True
      | Some p \<Rightarrow> (ControllerName p \<noteq> []) \<noteq> (GatewayRef p \<noteq> None))"
  by (cases g) (auto simp: GatewayParameters_Validate_def)

theorem GatewayParameters_Validate_nil_iff_witness:
  "GatewayParameters_Validate None = None
   \<and> GatewayParameters_Validate
        (Some \<lparr>ControllerName = ''projectcontour.io/projectcontour/contour'',
               GatewayRef = None\<rparr>) = None
   \<and> GatewayParameters_Validate
        (Some \<lparr>ControllerName = [],
               GatewayRef = Some \<lparr>Name = ''contour'', Namespace = ''projectcontour''\<rparr>\<rparr>) = None
   \<and> GatewayParameters_Validate (Some \<lparr>ControllerName = [], GatewayRef = None\<rparr>) \<noteq> None
   \<and> GatewayParameters_Validate
        (Some \<lparr>ControllerName = ''projectcontour.io/projectcontour/contour'',
               GatewayRef = Some \<lparr>Name = ''contour'', Namespace = ''projectcontour''\<rparr>\<rparr>) \<noteq> None"
  using GatewayParameters_Validate_nil_iff [of None]
    GatewayParameters_Validate_nil_iff
      [of "Some \<lparr>ControllerName = ''projectcontour.io/projectcontour/contour'',
                  GatewayRef = None\<rparr>"]
    GatewayParameters_Validate_nil_iff
      [of "Some \<lparr>ControllerName = [],
                  GatewayRef = Some \<lparr>Name = ''contour'', Namespace = ''projectcontour''\<rparr>\<rparr>"]
    GatewayParameters_Validate_nil_iff [of "Some \<lparr>ControllerName = [], GatewayRef = None\<rparr>"]
    GatewayParameters_Validate_nil_iff
      [of "Some \<lparr>ControllerName = ''projectcontour.io/projectcontour/contour'',
                  GatewayRef = Some \<lparr>Name = ''contour'', Namespace = ''projectcontour''\<rparr>\<rparr>"]
  by simp

text \<open>
  Evaluating the parser: the first byte of "infinity" and of "infinite" is neither a
  digit nor a period, so the loop rejects both at once; "60s" and "2s" are durations.
\<close>

lemma ParseDuration_infinity: "ParseDuration fr ''infinity'' = Inl InvalidDuration"
  by (simp add: ParseDuration_def ParseDuration_loop.simps parseComponent_def isDigit_def)

lemma ParseDuration_infinite: "ParseDuration fr ''infinite'' = Inl InvalidDuration"
  by (simp add: ParseDuration_def ParseDuration_loop.simps parseComponent_def isDigit_def)

lemma ParseDuration_60s: "ParseDuration fr ''60s'' = Inr 60000000000"
  by (simp add: ParseDuration_def ParseDuration_loop.simps parseComponent_def isDigit_def
      leadingInt_def unitChar_def unitMap_def)

lemma ParseDuration_2s: "ParseDuration fr ''2s'' = Inr 2000000000"
  by (simp add: ParseDuration_def ParseDuration_loop.simps parseComponent_def isDigit_def
      leadingInt_def unitChar_def unitMap_def)

lemma ParseDuration_rejects:
  "ParseDuration fr [] = Inl InvalidDuration"
  "ParseDuration fr ''1'' = Inl MissingUnit"
  "ParseDuration fr ''1d'' = Inl (UnknownUnit ''d'')"
  by (simp_all add: ParseDuration_def ParseDuration_loop.simps parseComponent_def isDigit_def
      leadingInt_def unitChar_def unitMap_def)

lemma wrapped_None_iff:
  "((case x of None \<Rightarrow> y | Some err \<Rightarrow> Some (g err)) = None) = (x = None \<and> y = None)"
  by (cases x) simp_all

lemma connect_None_iff:
  "((case ParseDuration fr s of Inl err \<Rightarrow> Some (g err) | Inr d \<Rightarrow> None) = None) = parses fr s"
  by (cases "ParseDuration fr s") (simp_all add: parses_def)

lemma Validate_v_None:
  "(Validate_v fr s = None) = (s = [] \<or> s = ''infinity'' \<or> s = ''infinite'' \<or> parses fr s)"
  by (auto simp: Validate_v_def parses_def split: sum.splits)

text \<open>
  C9. \<open>TimeoutParameters.Validate\<close> accepts "", "infinity" and "infinite" for the six
  fields \<open>RequestTimeout\<close>, \<open>ConnectionIdleTimeout\<close>, \<open>StreamIdleTimeout\<close>,
  \<open>MaxConnectionDuration\<close>, \<open>DelayedCloseTimeout\<close> and \<open>ConnectionShutdownGracePeriod\<close>,
  and otherwise requires each to parse as a Go duration; for \<open>ConnectTimeout\<close> only the
  empty string and parseable durations are accepted, so with \<open>ConnectTimeout\<close> equal to
  "infinity" or "infinite" \<open>Validate\<close> returns an error. This holds however the
  floating-point product \<open>fr\<close> rounds.
\<close>

theorem TimeoutParameters_Validate_accepts:
  "(TimeoutParameters_Validate fr t = None) =
     ((\<forall>s \<in> {RequestTimeout t, ConnectionIdleTimeout t, StreamIdleTimeout t,
              MaxConnectionDuration t, DelayedCloseTimeout t, ConnectionShutdownGracePeriod t}.
         s = [] \<or> s = ''infinity'' \<or> s = ''infinite'' \<or> parses fr s)
      \<and> (ConnectTimeout t = [] \<or> parses fr (ConnectTimeout t)))
   \<and> (ConnectTimeout t = ''infinity'' \<or> ConnectTimeout t = ''infinite''
        \<longrightarrow> TimeoutParameters_Validate fr t \<noteq> None)"
proof -
  have char: "(TimeoutParameters_Validate fr t = None) =
     ((\<forall>s \<in> {RequestTimeout t, ConnectionIdleTimeout t, StreamIdleTimeout t,
              MaxConnectionDuration t, DelayedCloseTimeout t, ConnectionShutdownGracePeriod t}.
         s = [] \<or> s = ''infinity'' \<or> s = ''infinite'' \<or> parses fr s)
      \<and> (ConnectTimeout t = [] \<or> parses fr (ConnectTimeout t)))"
    unfolding TimeoutParameters_Validate_def
    by (simp add: wrapped_None_iff connect_None_iff Validate_v_None)
  have "\<not> parses fr ''infinity''" "\<not> parses fr ''infinite''"
    by (simp_all add: parses_def ParseDuration_infinity ParseDuration_infinite)
  with char show ?thesis by auto
qed

text \<open>
  The witness: the timeouts of \<open>Defaults()\<close> with an infinite request timeout are
  accepted; the same value with \<open>ConnectTimeout\<close> set to "infinity" is refused.
\<close>

theorem TimeoutParameters_Validate_accepts_witness:
  "TimeoutParameters_Validate truncFrac
     \<lparr>RequestTimeout = ''infinity'', ConnectionIdleTimeout = ''60s'', StreamIdleTimeout = [],
      MaxConnectionDuration = ''infinite'', DelayedCloseTimeout = [],
      ConnectionShutdownGracePeriod = [], ConnectTimeout = ''2s''\<rparr> = None
   \<and> TimeoutParameters_Validate truncFrac
     \<lparr>RequestTimeout = ''infinity'', ConnectionIdleTimeout = ''60s'', StreamIdleTimeout = [],
      MaxConnectionDuration = ''infinite'', DelayedCloseTimeout = [],
      ConnectionShutdownGracePeriod = [], ConnectTimeout = ''infinity''\<rparr> \<noteq> None"
  using TimeoutParameters_Validate_accepts [of truncFrac
      "\<lparr>RequestTimeout = ''infinity'', ConnectionIdleTimeout = ''60s'', StreamIdleTimeout = [],
        MaxConnectionDuration = ''infinite'', DelayedCloseTimeout = [],
        ConnectionShutdownGracePeriod = [], ConnectTimeout = ''2s''\<rparr>"]
    TimeoutParameters_Validate_accepts [of truncFrac
      "\<lparr>RequestTimeout = ''infinity'', ConnectionIdleTimeout = ''60s'', StreamIdleTimeout = [],
        MaxConnectionDuration = ''infinite'', DelayedCloseTimeout = [],
        ConnectionShutdownGracePeriod = [], ConnectTimeout = ''infinity''\<rparr>"]
  by (simp add: parses_def ParseDuration_60s ParseDuration_2s ParseDuration_infinity)

text \<open>
  C10. \<open>MetricsServerParameters.Validate\<close> returns an error exactly when exactly one of
  \<open>ServerCert\<close> and \<open>ServerKey\<close> is non-empty, or \<open>CABundle\<close> is non-empty while
  \<open>ServerCert\<close> is empty; and whenever it returns \<open>nil\<close>, \<open>HasTLS\<close> is true if and only
  if \<open>ServerCert\<close> is non-empty.
\<close>

theorem MetricsServerParameters_Validate_error_iff:
  "(MetricsServerParameters_Validate p \<noteq> None) =
     (((ServerCert p \<noteq> []) \<noteq> (ServerKey p \<noteq> [])) \<or> (CABundle p \<noteq> [] \<and> ServerCert p = []))
   \<and> (MetricsServerParameters_Validate p = None \<longrightarrow> HasTLS p = (ServerCert p \<noteq> []))"
  by (auto simp: MetricsServerParameters_Validate_def HasTLS_def)

theorem MetricsServerParameters_Validate_error_iff_witness:
  "MetricsServerParameters_Validate
     \<lparr>Address = ''0.0.0.0'', Port = 8000, ServerCert = ''/certs/tls.crt'',
      ServerKey = ''/certs/tls.key'', CABundle = ''/certs/ca.crt''\<rparr> = None
   \<and> HasTLS
     \<lparr>Address = ''0.0.0.0'', Port = 8000, ServerCert = ''/certs/tls.crt'',
      ServerKey = ''/certs/tls.key'', CABundle = ''/certs/ca.crt''\<rparr>"
  using MetricsServerParameters_Validate_error_iff
    [of "\<lparr>Address = ''0.0.0.0'', Port = 8000, ServerCert = ''/certs/tls.crt'',
          ServerKey = ''/certs/tls.key'', CABundle = ''/certs/ca.crt''\<rparr>"]
  by simp

section \<open>Properties of the snapshot cache\<close>

text \<open>Folding the per-family step over distinct families touches each of them once.\<close>

lemma fold_Publish_family:
  "distinct fs \<Longrightarrow>
   published (fold (Publish_family s n) fs c) f = (if f \<in> set fs then s f else published c f)
   \<and> versions (fold (Publish_family s n) fs c) f =
       (if f \<in> set fs \<and> s f \<noteq> published c f then n else versions c f)
   \<and> counter (fold (Publish_family s n) fs c) =
       (if \<exists>g \<in> set fs. s g \<noteq> published c g then n else counter c)"
proof (induction fs arbitrary: c)
  case Nil
  then show ?case by simp
next
  case (Cons g fs)
  let ?c = "Publish_family s n g c"
  have pub: "\<And>h. h \<noteq> g \<Longrightarrow> published ?c h = published c h"
    by (simp add: Publish_family_def)
  have pubg: "published ?c g = s g"
    by (simp add: Publish_family_def)
  have ver: "\<And>h. h \<noteq> g \<Longrightarrow> versions ?c h = versions c h"
    by (simp add: Publish_family_def)
  have verg: "versions ?c g = (if s g \<noteq> published c g then n else versions c g)"
    by (simp add: Publish_family_def)
  have cnt: "counter ?c = (if s g \<noteq> published c g then n else counter c)"
    by (simp add: Publish_family_def)
  from Cons.prems have d: "distinct fs" and g: "g \<notin> set fs" by simp_all
  have same: "\<And>h. h \<in> set fs \<Longrightarrow> published ?c h = published c h"
    using g pub by metis
  note IH = Cons.IH [OF d, of ?c]
  have "published (fold (Publish_family s n) (g # fs) c) f =
          (if f \<in> set (g # fs) then s f else published c f)"
  proof (cases "f = g")
    case True
    then show ?thesis using IH g pubg by simp
  next
    case False
    then show ?thesis using IH pub by simp
  qed
  moreover have "versions (fold (Publish_family s n) (g # fs) c) f =
          (if f \<in> set (g # fs) \<and> s f \<noteq> published c f then n else versions c f)"
  proof (cases "f = g")
    case True
    then show ?thesis using IH g verg by simp
  next
    case False
    then show ?thesis using IH pub ver by simp
  qed
  moreover have "counter (fold (Publish_family s n) (g # fs) c) =
          (if \<exists>h \<in> set (g # fs). s h \<noteq> published c h then n else counter c)"
    using IH cnt same by auto
  ultimately show ?case by blast
qed

lemma set_families: "set families = UNIV"
proof -
  have "f \<in> set families" for f by (cases f) (simp_all add: families_def)
  then show ?thesis by blast
qed

lemma distinct_families: "distinct families"
  by (simp add: families_def)

lemma Publish_published: "published (Publish c s) f = s f"
  using fold_Publish_family [OF distinct_families, of s "Suc (counter c)" c f]
  by (simp add: Publish_def set_families)

lemma Publish_versions:
  "versions (Publish c s) f = (if s f \<noteq> published c f then Suc (counter c) else versions c f)"
  using fold_Publish_family [OF distinct_families, of s "Suc (counter c)" c f]
  by (simp add: Publish_def set_families)

lemma Publish_counter:
  "counter (Publish c s) = (if \<exists>g. s g \<noteq> published c g then Suc (counter c) else counter c)"
  using fold_Publish_family [OF distinct_families, of s "Suc (counter c)" c]
  by (simp add: Publish_def set_families)

text \<open>
  C2. For every publish of a ResourceSnapshot into the Snapshot Cache and every resource
  family: the family's content becomes the published one; if it is byte-identical to the
  currently published content of that family, the family's version number is unchanged,
  whatever happens to the other families; a family whose content changed receives the
  next value of the single shared counter, which never decreases.
\<close>

theorem Publish_version_rule:
  "published (Publish c s) f = s f
   \<and> (s f = published c f \<longrightarrow> versions (Publish c s) f = versions c f)
   \<and> (s f \<noteq> published c f \<longrightarrow>
        versions (Publish c s) f = Suc (counter c) \<and> counter (Publish c s) = Suc (counter c))
   \<and> counter c \<le> counter (Publish c s)"
  by (auto simp: Publish_published Publish_versions Publish_counter)

text \<open>
  The witness: a cache holding one route table at version 1 receives a snapshot with the
  same route table and a new cluster. The route-table set keeps version 1, the cluster set
  gets version 2.
\<close>

theorem Publish_version_rule_witness:
  "versions
     (Publish
        \<lparr>published = (\<lambda>f. [])(RouteTableSet := [(''ingress_http'', ''a'')]),
         versions = (\<lambda>f. 0)(RouteTableSet := 1), counter = 1\<rparr>
        ((\<lambda>f. [])(RouteTableSet := [(''ingress_http'', ''a'')],
                   ClusterSet := [(''default/svc/80'', ''c'')])))
     RouteTableSet = 1
   \<and> versions
     (Publish
        \<lparr>published = (\<lambda>f. [])(RouteTableSet := [(''ingress_http'', ''a'')]),
         versions = (\<lambda>f. 0)(RouteTableSet := 1), counter = 1\<rparr>
        ((\<lambda>f. [])(RouteTableSet := [(''ingress_http'', ''a'')],
                   ClusterSet := [(''default/svc/80'', ''c'')])))
     ClusterSet = 2"
  using Publish_version_rule
      [of "\<lparr>published = (\<lambda>f. [])(RouteTableSet := [(''ingress_http'', ''a'')]),
             versions = (\<lambda>f. 0)(RouteTableSet := 1), counter = 1\<rparr>"
          "(\<lambda>f. [])(RouteTableSet := [(''ingress_http'', ''a'')],
                     ClusterSet := [(''default/svc/80'', ''c'')])"
          RouteTableSet]
    Publish_version_rule
      [of "\<lparr>published = (\<lambda>f. [])(RouteTableSet := [(''ingress_http'', ''a'')]),
             versions = (\<lambda>f. 0)(RouteTableSet := 1), counter = 1\<rparr>"
          "(\<lambda>f. [])(RouteTableSet := [(''ingress_http'', ''a'')],
                     ClusterSet := [(''default/svc/80'', ''c'')])"
          ClusterSet]
  by simp

text \<open>Every version assigned during a run exceeds the counter the run started from.\<close>

lemma assigned_above:
  "v \<in> set (assigned f c ss) \<Longrightarrow> counter c < v"
proof (induction ss arbitrary: c)
  case Nil
  then show ?case by simp
next
  case (Cons s ss)
  have mono: "counter c \<le> counter (Publish c s)"
    by (simp add: Publish_counter)
  from Cons.prems consider
    (here) "s f \<noteq> published c f" "v = versions (Publish c s) f"
    | (later) "v \<in> set (assigned f (Publish c s) ss)"
    by (auto split: if_splits)
  then show ?case
  proof cases
    case here
    then show ?thesis by (simp add: Publish_versions)
  next
    case later
    with Cons.IH mono show ?thesis by fastforce
  qed
qed

lemma assigned_sorted: "sorted_wrt (<) (assigned f c ss)"
proof (induction ss arbitrary: c)
  case Nil
  then show ?case by simp
next
  case (Cons s ss)
  have "versions (Publish c s) f < v"
    if "s f \<noteq> published c f" "v \<in> set (assigned f (Publish c s) ss)" for v
  proof -
    have "counter (Publish c s) < v" using that(2) by (rule assigned_above)
    moreover have "versions (Publish c s) f = counter (Publish c s)"
      using that(1) by (auto simp: Publish_versions Publish_counter)
    ultimately show ?thesis by simp
  qed
  with Cons.IH show ?case by (simp add: sorted_wrt_append)
qed

text \<open>
  C3. The version of a published snapshot is a strictly increasing integer assigned at
  publish time: for every sequence of publishes, from any state of the cache, the version
  numbers successively assigned to a family by the publishes that change its content are
  strictly increasing, and each exceeds every version handed out before the sequence.
\<close>

theorem assigned_strictly_increasing:
  "sorted_wrt (<) (assigned f c ss) \<and> (\<forall>v \<in> set (assigned f c ss). counter c < v)"
  using assigned_sorted assigned_above by blast

text \<open>
  The witness: three publishes into the empty cache; the first and the third change the
  route table, the second only adds a cluster. The route-table set is assigned 1, then 3.
\<close>

theorem assigned_strictly_increasing_witness:
  "assigned RouteTableSet empty_cache
     [(\<lambda>f. [])(RouteTableSet := [(''ingress_http'', ''a'')]),
      (\<lambda>f. [])(RouteTableSet := [(''ingress_http'', ''a'')],
                ClusterSet := [(''default/svc/80'', ''c'')]),
      (\<lambda>f. [])(RouteTableSet := [(''ingress_http'', ''b'')],
                ClusterSet := [(''default/svc/80'', ''c'')])] = [1, 3]
   \<and> sorted_wrt (<)
       (assigned RouteTableSet empty_cache
         [(\<lambda>f. [])(RouteTableSet := [(''ingress_http'', ''a'')]),
          (\<lambda>f. [])(RouteTableSet := [(''ingress_http'', ''a'')],
                    ClusterSet := [(''default/svc/80'', ''c'')]),
          (\<lambda>f. [])(RouteTableSet := [(''ingress_http'', ''b'')],
                    ClusterSet := [(''default/svc/80'', ''c'')])])"
  using assigned_strictly_increasing
      [of RouteTableSet empty_cache
          "[(\<lambda>f. [])(RouteTableSet := [(''ingress_http'', ''a'')]),
            (\<lambda>f. [])(RouteTableSet := [(''ingress_http'', ''a'')],
                      ClusterSet := [(''default/svc/80'', ''c'')]),
            (\<lambda>f. [])(RouteTableSet := [(''ingress_http'', ''b'')],
                      ClusterSet := [(''default/svc/80'', ''c'')])]"]
  by (simp add: Publish_versions Publish_published Publish_counter empty_cache_def)

end
